theory Spec2Isabelle
  imports Main "HOL-Library.Word"
begin

unbundle bit_operations_syntax

section \<open>Secondary CPU bring-up of lk2nd: the model\<close>

text \<open>
  The development embeds the CPU bring-up code of \<^verbatim>\<open>app/aboot/bootapp/boot.c\<close>
  (the tree resolver, the boot-address setter and the boot dispatcher, declared in
  \<^verbatim>\<open>lk2nd/smp/cpu-boot.h\<close>) and \<^verbatim>\<open>lk2nd/smp/gpl/cortex-a-msm8994.c\<close>
  (the msm8994 power sequencer).

  Conventions of the embedding:
  \<^item> \<^verbatim>\<open>uint32_t\<close>, \<^verbatim>\<open>uintptr_t\<close> and \<^verbatim>\<open>unsigned long\<close> of the 32-bit ARM target
    are \<open>32 word\<close>; register addresses wrap around as the C arithmetic does.
  \<^item> C \<^verbatim>\<open>int\<close> values (node offsets, property lengths, tuple indices) and
    addresses inside the device-tree blob are \<open>int\<close>; signed overflow is undefined
    in C and is not given a meaning here: a statement about arithmetic on a C
    \<^verbatim>\<open>int\<close> assumes that the operands and the result are in the range of the
    32-bit type (\<open>is_c_int\<close>).
  \<^item> Everything a function does besides returning is an event appended to the
    \<open>trace\<close> of the machine state, in program order.
\<close>

subsection \<open>Macros of \<^verbatim>\<open>bits.h\<close>\<close>

definition BIT :: "nat \<Rightarrow> 32 word" where
  \<comment> \<open>Modelled from the spec: \<^verbatim>\<open>bits.h\<close> is not among the sources. \<^verbatim>\<open>BIT(n)\<close> is
      the word with bit \<open>n\<close> alone set, \<^verbatim>\<open>(1 << (n))\<close>: the status bits of the
      Family-B guard and the flags of the secure-monitor call are built from it.\<close>
  "BIT n = push_bit n 1"

definition BITS :: "32 word \<Rightarrow> nat \<Rightarrow> nat \<Rightarrow> 32 word" where
  \<comment> \<open>Modelled from the spec: \<^verbatim>\<open>bits.h\<close> is not among the sources.
      \<^verbatim>\<open>BITS(x, high, low)\<close> masks \<open>x\<close> to its bits \<open>high\<close> down to \<open>low\<close>,
      \<^verbatim>\<open>((x) & (((1<<((high)+1))-1) & ~((1<<(low))-1)))\<close>: the masked core identifier.\<close>
  "BITS x high low = x AND ((push_bit (high + 1) 1 - 1) AND NOT (push_bit low 1 - 1))"

subsection \<open>Events and machine state\<close>

datatype loglevel = CRITICAL | INFO

datatype fmt_arg = ArgStr string | ArgInt int | ArgHex "32 word"

text \<open>
  \<^verbatim>\<open>scmcall_arg\<close>: \<open>x5\<close> holds the elements of the array that the initialiser
  names; the remaining elements are zero.
\<close>

record scmcall_arg =
  x0 :: "32 word"
  x1 :: "32 word"
  x2 :: "32 word"
  x3 :: "32 word"
  x4 :: "32 word"
  x5 :: "32 word list"

datatype event =
    Dprintf loglevel string "fmt_arg list"
  | Writel "32 word" "32 word"
  | Readl "32 word"
  | Dsb
  | Udelay nat
  | EnterCritical
  | ExitCritical
  | ScmCall2 scmcall_arg
  | ScmCallAtomic2 "32 word" "32 word" "32 word" "32 word"

text \<open>
  The machine: the memory-mapped registers, the coprocessor register read by
  \<^verbatim>\<open>mrc p15, 0, r, c0, c0, 5\<close>, and the trace of events so far.

  Modelled from the spec: the platform primitives \<^verbatim>\<open>dprintf\<close>, \<^verbatim>\<open>writel\<close>,
  \<^verbatim>\<open>readl\<close>, \<^verbatim>\<open>dsb\<close>, \<^verbatim>\<open>udelay\<close>, \<^verbatim>\<open>enter_critical_section\<close> and
  \<^verbatim>\<open>exit_critical_section\<close> come from headers that are not among the sources.
  Each is the capability the specification describes: a register write stores the
  value and is recorded, a register read returns the stored value and is recorded, a
  log call records its severity, format and arguments, and a barrier, a delay and
  the two ends of a critical section are recorded as such.
\<close>

record hw =
  regs :: "32 word \<Rightarrow> 32 word"
  cp15_mpidr :: "32 word"
  trace :: "event list"

definition emit :: "event \<Rightarrow> hw \<Rightarrow> hw" where
  "emit e s = s\<lparr>trace := trace s @ [e]\<rparr>"

definition dprintf :: "loglevel \<Rightarrow> string \<Rightarrow> fmt_arg list \<Rightarrow> hw \<Rightarrow> hw" where
  "dprintf lvl fmt args s = emit (Dprintf lvl fmt args) s"

definition writel :: "32 word \<Rightarrow> 32 word \<Rightarrow> hw \<Rightarrow> hw" where
  \<comment> \<open>\<^verbatim>\<open>writel(v, a)\<close>: value first, address second\<close>
  "writel v a s = emit (Writel v a) (s\<lparr>regs := (regs s)(a := v)\<rparr>)"

definition readl :: "32 word \<Rightarrow> hw \<Rightarrow> 32 word \<times> hw" where
  "readl a s = (regs s a, emit (Readl a) s)"

definition dsb :: "hw \<Rightarrow> hw" where
  "dsb s = emit Dsb s"

definition udelay :: "nat \<Rightarrow> hw \<Rightarrow> hw" where
  "udelay us s = emit (Udelay us) s"

definition enter_critical_section :: "hw \<Rightarrow> hw" where
  "enter_critical_section s = emit EnterCritical s"

definition exit_critical_section :: "hw \<Rightarrow> hw" where
  "exit_critical_section s = emit ExitCritical s"

subsection \<open>Observations on traces\<close>

fun is_write :: "event \<Rightarrow> bool" where
  "is_write (Writel v a) = True"
| "is_write e = False"

fun is_critical_log :: "event \<Rightarrow> bool" where
  "is_critical_log (Dprintf CRITICAL fmt args) = True"
| "is_critical_log e = False"

definition writes :: "event list \<Rightarrow> event list" where
  "writes evs = filter is_write evs"

text \<open>
  \<open>split_writes d evs\<close> replays a trace from critical-section nesting depth \<open>d\<close>
  and returns the register writes issued at depth 0 (local interrupts enabled),
  the register writes issued inside a critical section, and the final depth.
  An exit at depth 0 leaves the depth at 0.
\<close>

fun split_writes :: "nat \<Rightarrow> event list \<Rightarrow> event list \<times> event list \<times> nat" where
  "split_writes d [] = ([], [], d)"
| "split_writes d (EnterCritical # evs) = split_writes (Suc d) evs"
| "split_writes d (ExitCritical # evs) = split_writes (d - 1) evs"
| "split_writes d (Writel v a # evs) =
     (case split_writes d evs of (out, ins, d') \<Rightarrow>
        if d = 0 then (Writel v a # out, ins, d') else (out, Writel v a # ins, d'))"
| "split_writes d (e # evs) = split_writes d evs"

subsection \<open>The flattened device tree\<close>

text \<open>
  The blob is read through libfdt, which is not part of the sources at hand, so its
  entry points are fields of the tree:
  \<^item> \<open>fdt_mem\<close>: the bytes of the memory the blob lies in, by address;
  \<^item> \<open>fdt_getprop\<close>: for a node offset and a property name, the address of the
    property's value and its length in bytes; for a property that is absent (or any
    other error) the address is 0 (\<^verbatim>\<open>NULL\<close>) and the length is the negative error code;
  \<^item> \<open>fdt_get_name\<close>: the name of a node;
  \<^item> \<open>lkfdt_lookup_phandle\<close> (\<^verbatim>\<open>lk2nd/util/lkfdt.c\<close>): the offset of the node that
    the cross-reference property of a node points at, or a negative error code.
\<close>

record fdt =
  fdt_mem :: "int \<Rightarrow> 8 word"
  fdt_getprop :: "int \<Rightarrow> string \<Rightarrow> int \<times> int"
  fdt_get_name :: "int \<Rightarrow> string"
  lkfdt_lookup_phandle :: "int \<Rightarrow> string \<Rightarrow> int"

definition load32 :: "(int \<Rightarrow> 8 word) \<Rightarrow> int \<Rightarrow> 32 word" where
  \<comment> \<open>a 32-bit load of the little-endian CPU\<close>
  "load32 m a =
     ucast (m a) OR push_bit 8 (ucast (m (a + 1))) OR
     push_bit 16 (ucast (m (a + 2))) OR push_bit 24 (ucast (m (a + 3)))"

definition fdt32_to_cpu :: "32 word \<Rightarrow> 32 word" where
  \<comment> \<open>big-endian cell to CPU order: the byte swap\<close>
  "fdt32_to_cpu x =
     push_bit 24 (x AND 0xFF) OR push_bit 8 (x AND 0xFF00) OR
     (drop_bit 8 x AND 0xFF00) OR drop_bit 24 x"

definition fdt_cell :: "fdt \<Rightarrow> int \<Rightarrow> int \<Rightarrow> 32 word" where
  \<comment> \<open>\<^verbatim>\<open>fdt32_to_cpu(*(val + index))\<close> for \<^verbatim>\<open>const fdt32_t *val\<close>\<close>
  "fdt_cell dtb val index = fdt32_to_cpu (load32 (fdt_mem dtb) (val + 4 * index))"

definition fdt_cells :: "fdt \<Rightarrow> int \<Rightarrow> nat \<Rightarrow> 32 word list" where
  \<comment> \<open>the first \<open>n\<close> cells of the value at \<open>val\<close>\<close>
  "fdt_cells dtb val n = map (\<lambda>k. fdt_cell dtb val (int k)) [0..<n]"

definition prop_words :: "fdt \<Rightarrow> int \<Rightarrow> string \<Rightarrow> int" where
  \<comment> \<open>number of whole 32-bit words of a property; negative when it is absent\<close>
  "prop_words dtb node name = snd (fdt_getprop dtb node name) div 4"

subsection \<open>The tree resolver\<close>

definition read_phandle_value_indexed ::
  "fdt \<Rightarrow> int \<Rightarrow> string \<Rightarrow> int \<Rightarrow> hw \<Rightarrow> 32 word \<times> hw" where
  "read_phandle_value_indexed dtb node name index s =
     (case fdt_getprop dtb node name of (val, len) \<Rightarrow>
        if len < 4 then
          (0, dprintf CRITICAL ''Cannot read %s property of node: %d\<newline>''
                [ArgStr name, ArgInt len] s)
        else (fdt_cell dtb val index, s))"

definition read_phandle_reg_indexed ::
  "fdt \<Rightarrow> int \<Rightarrow> string \<Rightarrow> int \<Rightarrow> hw \<Rightarrow> 32 word \<times> hw" where
  "read_phandle_reg_indexed dtb node prop index s =
     (let used_index = index * 2;
          target = lkfdt_lookup_phandle dtb node prop
      in if target < 0 then
           (0, dprintf CRITICAL ''Cannot find %s node in %s: %d\<newline>''
                 [ArgStr prop, ArgStr (fdt_get_name dtb node), ArgInt target] s)
         else read_phandle_value_indexed dtb target ''reg'' used_index s)"

definition read_phandle_value :: "fdt \<Rightarrow> int \<Rightarrow> string \<Rightarrow> hw \<Rightarrow> 32 word \<times> hw" where
  "read_phandle_value dtb node name s = read_phandle_value_indexed dtb node name 0 s"

definition read_phandle_reg :: "fdt \<Rightarrow> int \<Rightarrow> string \<Rightarrow> hw \<Rightarrow> 32 word \<times> hw" where
  "read_phandle_reg dtb node prop s = read_phandle_reg_indexed dtb node prop 0 s"

subsection \<open>The boot-address setter\<close>

text \<open>
  The secure-monitor interface (\<^verbatim>\<open>scm.h\<close>) is not part of the sources at hand.
  Its macros and entry points are fields of the firmware environment: the service
  identifier, the two macros building the command word and the argument descriptor,
  the capability probe, and the value each call returns.
\<close>

record scm =
  SCM_SVC_BOOT :: "32 word"
  MAKE_SIP_SCM_CMD :: "32 word \<Rightarrow> 32 word \<Rightarrow> 32 word"
  MAKE_SCM_ARGS :: "nat \<Rightarrow> 32 word"
  is_scm_armv8_support :: bool
  scm_call2 :: "scmcall_arg \<Rightarrow> int"
  scm_call_atomic2 :: "32 word \<Rightarrow> 32 word \<Rightarrow> 32 word \<Rightarrow> 32 word \<Rightarrow> int"

definition QCOM_SCM_BOOT_SET_ADDR :: "32 word" where
  "QCOM_SCM_BOOT_SET_ADDR = 0x01"

definition QCOM_SCM_BOOT_FLAG_COLD_ALL :: "32 word" where
  "QCOM_SCM_BOOT_FLAG_COLD_ALL = 0 OR BIT 0 OR BIT 3 OR BIT 5"

definition QCOM_SCM_BOOT_SET_ADDR_MC :: "32 word" where
  "QCOM_SCM_BOOT_SET_ADDR_MC = 0x11"

definition QCOM_SCM_BOOT_MC_FLAG_AARCH64 :: "32 word" where
  "QCOM_SCM_BOOT_MC_FLAG_AARCH64 = BIT 0"

definition QCOM_SCM_BOOT_MC_FLAG_COLDBOOT :: "32 word" where
  "QCOM_SCM_BOOT_MC_FLAG_COLDBOOT = BIT 1"

definition QCOM_SCM_BOOT_MC_FLAG_WARMBOOT :: "32 word" where
  "QCOM_SCM_BOOT_MC_FLAG_WARMBOOT = BIT 2"

definition cpu_boot_set_addr :: "scm \<Rightarrow> 32 word \<Rightarrow> bool \<Rightarrow> hw \<Rightarrow> int \<times> hw" where
  "cpu_boot_set_addr fw addr arm64 s =
     (let aarch64 = (if arm64 then QCOM_SCM_BOOT_MC_FLAG_AARCH64 else 0);
          arg = \<lparr>x0 = MAKE_SIP_SCM_CMD fw (SCM_SVC_BOOT fw) QCOM_SCM_BOOT_SET_ADDR_MC,
                 x1 = MAKE_SCM_ARGS fw 6,
                 x2 = addr,
                 x3 = NOT 0, x4 = NOT 0,
                 x5 = [NOT 0, NOT 0, aarch64 OR QCOM_SCM_BOOT_MC_FLAG_COLDBOOT]\<rparr>
      in if is_scm_armv8_support fw then (scm_call2 fw arg, emit (ScmCall2 arg) s)
         else
           (let s1 = dprintf INFO ''Falling back to legacy QCOM_SCM_BOOT_SET_ADDR call\<newline>'' [] s
            in (scm_call_atomic2 fw (SCM_SVC_BOOT fw) QCOM_SCM_BOOT_SET_ADDR
                  QCOM_SCM_BOOT_FLAG_COLD_ALL addr,
                emit (ScmCallAtomic2 (SCM_SVC_BOOT fw) QCOM_SCM_BOOT_SET_ADDR
                        QCOM_SCM_BOOT_FLAG_COLD_ALL addr) s1)))"

subsection \<open>The boot dispatcher\<close>

definition read_mpidr :: "hw \<Rightarrow> 32 word" where
  "read_mpidr s = BITS (cp15_mpidr s) 23 0"

text \<open>
  Exactly one power-up method is compiled in; the preprocessor rejects a build with
  none. The sequencers of the three methods are defined in other files and are
  parameters here: each takes two register addresses and transforms the machine state.
\<close>

datatype cpu_boot_method = CPU_BOOT_CORTEX_A | CPU_BOOT_KPSSV1 | CPU_BOOT_KPSSV2

record sequencers =
  cpu_boot_cortex_a :: "32 word \<Rightarrow> 32 word \<Rightarrow> hw \<Rightarrow> hw"
  cpu_boot_kpssv1 :: "32 word \<Rightarrow> 32 word \<Rightarrow> hw \<Rightarrow> hw"
  cpu_boot_kpssv2 :: "32 word \<Rightarrow> 32 word \<Rightarrow> hw \<Rightarrow> hw"

definition cpu_boot_method_part ::
  "cpu_boot_method \<Rightarrow> sequencers \<Rightarrow> fdt \<Rightarrow> int \<Rightarrow> 32 word \<Rightarrow> hw \<Rightarrow> bool \<times> hw" where
  \<comment> \<open>the \<^verbatim>\<open>#if\<close> ... \<^verbatim>\<open>#endif\<close> block and the statements after it\<close>
  "cpu_boot_method_part method seq dtb node acc s =
     (case method of
        CPU_BOOT_CORTEX_A \<Rightarrow>
          (case read_phandle_reg dtb node ''clocks'' s of (extra_reg, s1) \<Rightarrow>
             (True, udelay 100 (cpu_boot_cortex_a seq acc extra_reg s1)))
      | CPU_BOOT_KPSSV1 \<Rightarrow>
          (case read_phandle_reg dtb node ''qcom,saw'' s of (extra_reg, s1) \<Rightarrow>
             if extra_reg = 0 then (False, s1)
             else (True, udelay 100 (cpu_boot_kpssv1 seq acc extra_reg s1)))
      | CPU_BOOT_KPSSV2 \<Rightarrow>
          (let node' = lkfdt_lookup_phandle dtb node ''next-level-cache''
           in if node' < 0 then
                (False, dprintf CRITICAL ''Cannot find CPU next-level-cache: %d\<newline>''
                          [ArgInt node'] s)
              else
                (case read_phandle_reg dtb node' ''qcom,saw'' s of (extra_reg, s1) \<Rightarrow>
                   if extra_reg = 0 then (False, s1)
                   else (True, udelay 100 (cpu_boot_kpssv2 seq acc extra_reg s1)))))"

definition cpu_boot ::
  "cpu_boot_method \<Rightarrow> sequencers \<Rightarrow> fdt \<Rightarrow> int \<Rightarrow> 32 word \<Rightarrow> hw \<Rightarrow> bool \<times> hw" where
  "cpu_boot method seq dtb node mpidr s =
     (if mpidr = read_mpidr s then
        (True, dprintf INFO ''Skipping boot of current CPU (%x)\<newline>'' [ArgHex mpidr] s)
      else
        (case read_phandle_reg dtb node ''qcom,acc'' s of (acc, s1) \<Rightarrow>
           if acc = 0 then (False, s1)
           else cpu_boot_method_part method seq dtb node acc
                  (dprintf INFO ''Booting CPU%x @ %#08x\<newline>'' [ArgHex mpidr, ArgHex acc] s1)))"

subsection \<open>\<^verbatim>\<open>cortex-a-msm8994.c\<close>: the msm8994 power sequencer\<close>

definition CPU_PWR_CTL :: "32 word" where
  "CPU_PWR_CTL = 0x4"

definition APC_PWR_GATE_CTL :: "32 word" where
  "APC_PWR_GATE_CTL = 0x14"

definition L1_RST_DIS :: "32 word" where
  "L1_RST_DIS = 0x284"

definition L2_VREG_CTL :: "32 word" where
  "L2_VREG_CTL = 0x1c"

definition L2_PWR_CTL :: "32 word" where
  "L2_PWR_CTL = 0x14"

definition L2_PWR_CTL_OVERRIDE :: "32 word" where
  "L2_PWR_CTL_OVERRIDE = 0xc"

definition L2_PWR_STATUS_L2_HS_STS_MSM8994 :: "32 word" where
  "L2_PWR_STATUS_L2_HS_STS_MSM8994 = BIT 9 OR BIT 28"

definition REGULATOR_SETUP_VOLTAGE_TIMEOUT :: nat where
  "REGULATOR_SETUP_VOLTAGE_TIMEOUT = 2000"

definition run :: "(hw \<Rightarrow> hw) list \<Rightarrow> hw \<Rightarrow> hw" where
  \<comment> \<open>a block of statements, executed first to last\<close>
  "run stmts s = fold (\<lambda>stmt t. stmt t) stmts s"

definition msm_spm_turn_on_cpu_rail :: "32 word \<Rightarrow> 32 word \<Rightarrow> 32 word \<Rightarrow> hw \<Rightarrow> hw" where
  "msm_spm_turn_on_cpu_rail vctl_base_0 vctl_base_1 vctl_val s =
     (let s1 = (if vctl_base_1 \<noteq> 0 then run [writel 0x2 vctl_base_1, dsb] s else s);
          vctl_val1 = vctl_val AND 0xFF;
          s2 = run [writel vctl_val1 (vctl_base_0 + L2_VREG_CTL), dsb,
                    udelay REGULATOR_SETUP_VOLTAGE_TIMEOUT] s1;
          vctl_val2 = 0x30080
      in run [writel vctl_val2 (vctl_base_0 + L2_VREG_CTL), dsb,
              udelay REGULATOR_SETUP_VOLTAGE_TIMEOUT] s2)"

definition power_on_l2_cache_msm8994 ::
  "32 word \<Rightarrow> 32 word \<Rightarrow> 32 word \<Rightarrow> 32 word \<Rightarrow> hw \<Rightarrow> hw" where
  "power_on_l2_cache_msm8994 l2ccc_base vctl_base_0 vctl_base_1 vctl_val s =
     (case readl (l2ccc_base + L2_PWR_CTL) s of (status, s1) \<Rightarrow>
        if status AND L2_PWR_STATUS_L2_HS_STS_MSM8994 \<noteq> 0 then s1
        else run
          [msm_spm_turn_on_cpu_rail vctl_base_0 vctl_base_1 vctl_val,
           dprintf INFO ''Powering on L2 cache @ %#08x\<newline>'' [ArgHex l2ccc_base],
           enter_critical_section,
           writel 0x00000000 (l2ccc_base + L1_RST_DIS), dsb,
           writel 0x00400000 (l2ccc_base + L2_PWR_CTL_OVERRIDE), dsb,
           writel 0x00029716 (l2ccc_base + L2_PWR_CTL), dsb, udelay 8,
           writel 0x00023716 (l2ccc_base + L2_PWR_CTL), dsb,
           writel 0x0002371E (l2ccc_base + L2_PWR_CTL), dsb, udelay 8,
           writel 0x0002371C (l2ccc_base + L2_PWR_CTL), dsb, udelay 4,
           writel 0x0002361C (l2ccc_base + L2_PWR_CTL), dsb, udelay 2,
           writel 0x00022218 (l2ccc_base + L2_PWR_CTL), dsb, udelay 4,
           writel 0x10022218 (l2ccc_base + L2_PWR_CTL), dsb,
           writel 0x00000000 (l2ccc_base + L2_PWR_CTL_OVERRIDE), dsb,
           exit_critical_section] s1)"

definition cpu_boot_cortex_a_msm8994 ::
  "32 word \<Rightarrow> 32 word \<Rightarrow> 32 word \<Rightarrow> 32 word \<Rightarrow> 32 word \<Rightarrow> hw \<Rightarrow> hw" where
  "cpu_boot_cortex_a_msm8994 base l2ccc_base vctl_base_0 vctl_base_1 vctl_val s =
     (let s1 = (if l2ccc_base \<noteq> 0
                then power_on_l2_cache_msm8994 l2ccc_base vctl_base_0 vctl_base_1 vctl_val s
                else s)
      in run
          [enter_critical_section,
           writel 0x00000001 (base + APC_PWR_GATE_CTL), dsb, udelay 1,
           writel 0x00000003 (base + APC_PWR_GATE_CTL), dsb, udelay 1,
           writel 0x00000079 (base + CPU_PWR_CTL), dsb, udelay 2,
           writel 0x0000007D (base + CPU_PWR_CTL), dsb, udelay 2,
           writel 0x0000003D (base + CPU_PWR_CTL), dsb,
           writel 0x0000003C (base + CPU_PWR_CTL), dsb, udelay 1,
           writel 0x0000000C (base + CPU_PWR_CTL), dsb,
           writel 0x0000008C (base + CPU_PWR_CTL), dsb,
           exit_critical_section] s1)"

subsection \<open>Vocabulary of the statements\<close>

definition is_c_int :: "int \<Rightarrow> bool" where
  \<comment> \<open>representable in the 32-bit \<^verbatim>\<open>int\<close> of the target: \<^verbatim>\<open>INT_MIN\<close> to \<^verbatim>\<open>INT_MAX\<close>\<close>
  "is_c_int x = (- (2 ^ 31) \<le> x \<and> x < 2 ^ 31)"

definition new_events :: "hw \<Rightarrow> hw \<Rightarrow> event list" where
  \<comment> \<open>the events a call appended, given the state before and the state after\<close>
  "new_events s s' = drop (length (trace s)) (trace s')"

definition l2_already_on :: "hw \<Rightarrow> 32 word \<Rightarrow> bool" where
  \<comment> \<open>the status word at \<open>l2ccc_base + L2_PWR_CTL\<close> has bit 9 or bit 28 set\<close>
  "l2_already_on s l2ccc_base =
     (regs s (l2ccc_base + L2_PWR_CTL) AND L2_PWR_STATUS_L2_HS_STS_MSM8994 \<noteq> 0)"

definition rail_writes :: "32 word \<Rightarrow> 32 word \<Rightarrow> 32 word \<Rightarrow> event list" where
  \<comment> \<open>the register writes of \<^verbatim>\<open>msm_spm_turn_on_cpu_rail\<close>, in order\<close>
  "rail_writes vctl_base_0 vctl_base_1 vctl_val =
     (if vctl_base_1 \<noteq> 0 then [Writel 0x2 vctl_base_1] else []) @
     [Writel (vctl_val AND 0xFF) (vctl_base_0 + L2_VREG_CTL),
      Writel 0x30080 (vctl_base_0 + L2_VREG_CTL)]"

definition l2_cache_writes :: "32 word \<Rightarrow> event list" where
  \<comment> \<open>the register writes of the L2 power-up sequence proper, in order\<close>
  "l2_cache_writes l2ccc_base =
     [Writel 0x00000000 (l2ccc_base + L1_RST_DIS),
      Writel 0x00400000 (l2ccc_base + L2_PWR_CTL_OVERRIDE),
      Writel 0x00029716 (l2ccc_base + L2_PWR_CTL),
      Writel 0x00023716 (l2ccc_base + L2_PWR_CTL),
      Writel 0x0002371E (l2ccc_base + L2_PWR_CTL),
      Writel 0x0002371C (l2ccc_base + L2_PWR_CTL),
      Writel 0x0002361C (l2ccc_base + L2_PWR_CTL),
      Writel 0x00022218 (l2ccc_base + L2_PWR_CTL),
      Writel 0x10022218 (l2ccc_base + L2_PWR_CTL),
      Writel 0x00000000 (l2ccc_base + L2_PWR_CTL_OVERRIDE)]"

definition core_enable_writes :: "32 word \<Rightarrow> event list" where
  \<comment> \<open>the eight register writes that enable the core, in order\<close>
  "core_enable_writes base =
     [Writel 0x00000001 (base + APC_PWR_GATE_CTL),
      Writel 0x00000003 (base + APC_PWR_GATE_CTL),
      Writel 0x00000079 (base + CPU_PWR_CTL),
      Writel 0x0000007D (base + CPU_PWR_CTL),
      Writel 0x0000003D (base + CPU_PWR_CTL),
      Writel 0x0000003C (base + CPU_PWR_CTL),
      Writel 0x0000000C (base + CPU_PWR_CTL),
      Writel 0x0000008C (base + CPU_PWR_CTL)]"

subsection \<open>Example inputs\<close>

text \<open>
  A small tree after the example in the documentation of
  \<^verbatim>\<open>read_phandle_reg_indexed\<close>: node 16 is \<^verbatim>\<open>l2ccc_0\<close>, whose
  \<^verbatim>\<open>qcom,vctl-node\<close> points at node 48, \<^verbatim>\<open>cluster0_spm\<close>, with
  \<^verbatim>\<open>reg = <0xf9012000 0x1000>, <0xf900d210 0x8>\<close> stored at address 1000; node 100
  is a CPU whose \<^verbatim>\<open>qcom,acc\<close> points at node 200 with
  \<^verbatim>\<open>reg = <0xf9000000 0x1000>\<close> stored at address 2000; the CPU has no
  \<^verbatim>\<open>clocks\<close>. In the blob each value is followed by the next structure token,
  here \<^verbatim>\<open>FDT_END_NODE\<close> (\<^verbatim>\<open>0x00000002\<close>).
\<close>

fun bytes_at :: "int \<Rightarrow> 8 word list \<Rightarrow> int \<Rightarrow> 8 word" where
  "bytes_at base [] a = 0"
| "bytes_at base (b # bs) a = (if a = base then b else bytes_at (base + 1) bs a)"

definition example_dtb :: fdt where
  "example_dtb = \<lparr>
     fdt_mem = (\<lambda>a. if a < 2000 then
        bytes_at 1000
         [0xf9, 0x01, 0x20, 0x00,  0x00, 0x00, 0x10, 0x00,
          0xf9, 0x00, 0xd2, 0x10,  0x00, 0x00, 0x00, 0x08,
          0x00, 0x00, 0x00, 0x02] a
        else bytes_at 2000
         [0xf9, 0x00, 0x00, 0x00,  0x00, 0x00, 0x10, 0x00,
          0x00, 0x00, 0x00, 0x02] a),
     fdt_getprop = (\<lambda>node name.
        if node = 48 \<and> name = ''reg'' then (1000, 16)
        else if node = 200 \<and> name = ''reg'' then (2000, 8)
        else (0, -1)),
     fdt_get_name = (\<lambda>node.
        if node = 16 then ''clock-controller@f900d000''
        else if node = 48 then ''qcom,spm@f9012000''
        else if node = 100 then ''cpu@1''
        else if node = 200 then ''clock-controller@f9000000''
        else []),
     lkfdt_lookup_phandle = (\<lambda>node prop.
        if node = 16 \<and> prop = ''qcom,vctl-node'' then 48
        else if node = 100 \<and> prop = ''qcom,acc'' then 200
        else -1)\<rparr>"

text \<open>A machine with all registers zero, running on core 0, with no event so far.\<close>

definition example_hw :: hw where
  "example_hw = \<lparr>regs = (\<lambda>a. 0), cp15_mpidr = 0x80000000, trace = []\<rparr>"

text \<open>
  The same machine with bit 9 of the status word of the L2 clock controller at
  \<^verbatim>\<open>0xf900f000\<close> set: the cache of that cluster is already powered.
\<close>

definition example_hw_l2_on :: hw where
  "example_hw_l2_on = \<lparr>regs = (\<lambda>a. if a = 0xf900f014 then 0x200 else 0),
     cp15_mpidr = 0x80000000, trace = []\<rparr>"

text \<open>Sequencers that record the two addresses they are called with as one write.\<close>

definition probe_sequencers :: sequencers where
  "probe_sequencers = \<lparr>
     cpu_boot_cortex_a = (\<lambda>base apcs_base. writel apcs_base base),
     cpu_boot_kpssv1 = (\<lambda>reg saw_reg. writel saw_reg reg),
     cpu_boot_kpssv2 = (\<lambda>reg l2_saw_base. writel l2_saw_base reg)\<rparr>"

text \<open>A firmware whose calls all return 0, with or without the ARMv8 interface.\<close>

definition example_scm :: "bool \<Rightarrow> scm" where
  "example_scm armv8 = \<lparr>
     SCM_SVC_BOOT = 0x1,
     MAKE_SIP_SCM_CMD = (\<lambda>svc cmd. ((push_bit 8 svc OR cmd) AND 0xFFFF) OR 0x02000000),
     MAKE_SCM_ARGS = (\<lambda>n. of_nat n),
     is_scm_armv8_support = armv8,
     scm_call2 = (\<lambda>arg. 0),
     scm_call_atomic2 = (\<lambda>svc cmd arg1 arg2. 0)\<rparr>"

section \<open>Basic facts\<close>

lemma trace_emit [simp]: "trace (emit e s) = trace s @ [e]"
  and regs_emit [simp]: "regs (emit e s) = regs s"
  and mpidr_emit [simp]: "cp15_mpidr (emit e s) = cp15_mpidr s"
  by (simp_all add: emit_def)

lemma run_Nil [simp]: "run [] s = s"
  and run_Cons [simp]: "run (stmt # stmts) s = run stmts (stmt s)"
  by (simp_all add: run_def)

lemma writes_append [simp]: "writes (xs @ ys) = writes xs @ writes ys"
  by (simp add: writes_def)

lemma writes_simps [simp]:
  "writes [] = []"
  "writes (Writel v a # evs) = Writel v a # writes evs"
  "writes (Dprintf l f as # evs) = writes evs"
  by (simp_all add: writes_def)

lemmas prim_defs = writel_def dsb_def udelay_def dprintf_def
  enter_critical_section_def exit_critical_section_def readl_def

lemmas reg_defs = CPU_PWR_CTL_def APC_PWR_GATE_CTL_def L1_RST_DIS_def L2_VREG_CTL_def
  L2_PWR_CTL_def L2_PWR_CTL_OVERRIDE_def REGULATOR_SETUP_VOLTAGE_TIMEOUT_def

lemmas example_defs = example_dtb_def example_hw_def fdt_cell_def load32_def fdt32_to_cpu_def

section \<open>The tree resolver\<close>

text \<open>
  What \<^verbatim>\<open>read_phandle_value_indexed\<close> does depends on the byte length that
  \<open>fdt_getprop\<close> reports and on nothing else: below 4 (absent, or shorter than one
  word) it fails with one critical diagnostic; from 4 on it returns the cell at
  \<open>index\<close>, whatever the index.
\<close>

lemma read_phandle_value_indexed_absent:
  "snd (fdt_getprop dtb node name) < 4 \<Longrightarrow>
   read_phandle_value_indexed dtb node name index s =
     (0, emit (Dprintf CRITICAL ''Cannot read %s property of node: %d\<newline>''
                 [ArgStr name, ArgInt (snd (fdt_getprop dtb node name))]) s)"
  by (cases "fdt_getprop dtb node name") (simp add: read_phandle_value_indexed_def dprintf_def)

lemma read_phandle_value_indexed_absent_one_diagnostic:
  "snd (fdt_getprop dtb node name) < 4 \<Longrightarrow>
   fst (read_phandle_value_indexed dtb node name index s) = 0 \<and>
   length (filter is_critical_log
     (new_events s (snd (read_phandle_value_indexed dtb node name index s)))) = 1"
  by (simp add: read_phandle_value_indexed_absent new_events_def)

lemma read_phandle_value_indexed_present:
  "4 \<le> snd (fdt_getprop dtb node name) \<Longrightarrow>
   read_phandle_value_indexed dtb node name index s =
     (fdt_cell dtb (fst (fdt_getprop dtb node name)) index, s)"
  by (cases "fdt_getprop dtb node name") (simp add: read_phandle_value_indexed_def)

lemma read_phandle_value_indexed_effect:
  "regs (snd (read_phandle_value_indexed dtb node name index s)) = regs s \<and>
   cp15_mpidr (snd (read_phandle_value_indexed dtb node name index s)) = cp15_mpidr s \<and>
   writes (trace (snd (read_phandle_value_indexed dtb node name index s))) = writes (trace s)"
  by (simp add: read_phandle_value_indexed_def dprintf_def split: prod.splits)


lemma read_phandle_reg_indexed_effect:
  "regs (snd (read_phandle_reg_indexed dtb node prop index s)) = regs s \<and>
   cp15_mpidr (snd (read_phandle_reg_indexed dtb node prop index s)) = cp15_mpidr s \<and>
   writes (trace (snd (read_phandle_reg_indexed dtb node prop index s))) = writes (trace s)"
  by (simp add: read_phandle_reg_indexed_def Let_def dprintf_def
        read_phandle_value_indexed_effect)


lemma read_phandle_reg_indexed_resolved:
  assumes "0 \<le> lkfdt_lookup_phandle dtb node prop"
    and "4 \<le> snd (fdt_getprop dtb (lkfdt_lookup_phandle dtb node prop) ''reg'')"
  shows "read_phandle_reg_indexed dtb node prop index s =
    (fdt_cell dtb (fst (fdt_getprop dtb (lkfdt_lookup_phandle dtb node prop) ''reg''))
       (2 * index), s)"
  using assms
  by (simp add: read_phandle_reg_indexed_def Let_def read_phandle_value_indexed_present
        mult.commute)

lemma nth_concat_pairs:
  "k < length ps \<Longrightarrow> concat (map (\<lambda>(a, sz). [a, sz]) ps) ! (2 * k) = fst (ps ! k)"
proof (induction ps arbitrary: k)
  case Nil
  then show ?case by simp
next
  case (Cons p ps)
  then show ?case by (cases k) (auto split: prod.splits)
qed

text \<open>
  Claim C1. The claim is that \<^verbatim>\<open>read_phandle_value_indexed\<close> returns the zero
  sentinel with one critical diagnostic whenever the property has fewer than
  \<open>index + 1\<close> words. The function compares the length with the size of one word
  only. In the example tree the \<^verbatim>\<open>reg\<close> property of node 200 has two words
  (one address and size pair); at index 2 the function reads the word behind the
  property, returns it (the \<^verbatim>\<open>FDT_END_NODE\<close> token, 2) and emits no diagnostic.
  This is the read that \<^verbatim>\<open>read_phandle_reg_indexed\<close> makes for tuple index 1.
\<close>

theorem read_phandle_value_indexed_reads_past_end:
  "prop_words example_dtb 200 ''reg'' = 2 \<and>
   read_phandle_value_indexed example_dtb 200 ''reg'' 2 example_hw = (2, example_hw) \<and>
   filter is_critical_log
     (trace (snd (read_phandle_value_indexed example_dtb 200 ''reg'' 2 example_hw))) = [] \<and>
   read_phandle_reg_indexed example_dtb 100 ''qcom,acc'' 1 example_hw = (2, example_hw)"
  by (simp add: prop_words_def read_phandle_reg_indexed_def read_phandle_value_indexed_def
        example_defs)

text \<open>
  Claim C2. \<^verbatim>\<open>read_phandle_reg_indexed\<close> resolves the cross-reference and, for
  every index whose double is still a C \<^verbatim>\<open>int\<close> (the product \<^verbatim>\<open>index * 2\<close>
  overflows otherwise, which C leaves undefined), reads the \<^verbatim>\<open>reg\<close> property of
  the target at word offset \<open>2 * index\<close>. When the cells of that property are the
  (address, size) pairs \<open>pairs\<close>, tuple index \<open>i\<close> therefore yields the address of
  the \<open>i\<close>-th pair, and no diagnostic is emitted.
\<close>

theorem read_phandle_reg_indexed_tuple_address:
  assumes target: "lkfdt_lookup_phandle dtb node prop = target" "0 \<le> target"
    and reg: "fdt_getprop dtb target ''reg'' = (val, len)" "4 \<le> len"
    and fits: "is_c_int index" "is_c_int (index * 2)"
  shows "read_phandle_reg_indexed dtb node prop index s = (fdt_cell dtb val (2 * index), s) \<and>
         (fdt_cells dtb val (2 * length pairs) = concat (map (\<lambda>(a, sz). [a, sz]) pairs) \<and>
          0 \<le> index \<and> nat index < length pairs \<longrightarrow>
            read_phandle_reg_indexed dtb node prop index s = (fst (pairs ! nat index), s))"
proof (intro conjI impI)
  show at_twice:
    "read_phandle_reg_indexed dtb node prop index s = (fdt_cell dtb val (2 * index), s)"
    using read_phandle_reg_indexed_resolved [of dtb node "prop" index s] target reg by simp
  assume pairs: "fdt_cells dtb val (2 * length pairs) = concat (map (\<lambda>(a, sz). [a, sz]) pairs) \<and>
    0 \<le> index \<and> nat index < length pairs"
  then have i: "nat index < length pairs" and nn: "0 \<le> index"
    by simp_all
  have "fdt_cells dtb val (2 * length pairs) ! (2 * nat index) =
      fdt_cell dtb val (int (2 * nat index))"
    using i by (simp add: fdt_cells_def)
  with pairs nth_concat_pairs [of "nat index" pairs] nn
  have "fdt_cell dtb val (2 * index) = fst (pairs ! nat index)"
    by simp
  with at_twice
  show "read_phandle_reg_indexed dtb node prop index s = (fst (pairs ! nat index), s)"
    by simp
qed

text \<open>
  The example of the documentation: index 1 on \<^verbatim>\<open>qcom,vctl-node\<close> of
  \<^verbatim>\<open>l2ccc_0\<close> is the second address, \<^verbatim>\<open>0xf900d210\<close>, not the size
  \<^verbatim>\<open>0x1000\<close> of the first pair.
\<close>

theorem read_phandle_reg_indexed_tuple_address_witness:
  "lkfdt_lookup_phandle example_dtb 16 ''qcom,vctl-node'' = 48 \<and>
   fdt_getprop example_dtb 48 ''reg'' = (1000, 16) \<and>
   is_c_int 1 \<and> is_c_int (1 * 2) \<and>
   fdt_cells example_dtb 1000 4 = [0xf9012000, 0x1000, 0xf900d210, 0x8] \<and>
   read_phandle_reg_indexed example_dtb 16 ''qcom,vctl-node'' 1 example_hw =
     (0xf900d210, example_hw)"
proof -
  have cells: "fdt_cells example_dtb 1000 4 = [0xf9012000, 0x1000, 0xf900d210, 0x8]"
    by (simp add: fdt_cells_def example_defs upt_rec)
  have target: "lkfdt_lookup_phandle example_dtb 16 ''qcom,vctl-node'' = 48"
    and reg: "fdt_getprop example_dtb 48 ''reg'' = (1000, 16)"
    by (simp_all add: example_dtb_def)
  have fits: "is_c_int 1" "is_c_int (1 * 2)"
    by (simp_all add: is_c_int_def)
  from read_phandle_reg_indexed_tuple_address [OF target _ reg _ fits, of example_hw
      "[(0xf9012000, 0x1000), (0xf900d210, 0x8)]", THEN conjunct2]
  show ?thesis using cells target reg fits by simp
qed



section \<open>The boot-address setter\<close>

lemma all_ones_32: "(- 1 :: 32 word) = 0xFFFFFFFF"
  by simp

text \<open>
  Claim C7. Without the ARMv8 interface \<^verbatim>\<open>cpu_boot_set_addr\<close> logs the fallback
  and makes the one legacy call \<^verbatim>\<open>scm_call_atomic2\<close> with command
  \<^verbatim>\<open>QCOM_SCM_BOOT_SET_ADDR\<close> (1), the cold-boot flags \<^verbatim>\<open>0x29\<close> and the
  address; with it, the one call \<^verbatim>\<open>scm_call2\<close> with command
  \<^verbatim>\<open>QCOM_SCM_BOOT_SET_ADDR_MC\<close> (\<^verbatim>\<open>0x11\<close>), six arguments, the address, four
  full core masks and the flags: cold boot (bit 1), and AArch64 (bit 0) when asked for.
  In both cases the result is what the call returns and nothing else happens.
\<close>

theorem cpu_boot_set_addr_paths:
  "(\<not> is_scm_armv8_support fw \<longrightarrow>
      cpu_boot_set_addr fw addr arm64 s =
        (scm_call_atomic2 fw (SCM_SVC_BOOT fw) 0x01 0x29 addr,
         s\<lparr>trace := trace s @
            [Dprintf INFO ''Falling back to legacy QCOM_SCM_BOOT_SET_ADDR call\<newline>'' [],
             ScmCallAtomic2 (SCM_SVC_BOOT fw) 0x01 0x29 addr]\<rparr>)) \<and>
   (is_scm_armv8_support fw \<longrightarrow>
      cpu_boot_set_addr fw addr arm64 s =
        (scm_call2 fw
           \<lparr>x0 = MAKE_SIP_SCM_CMD fw (SCM_SVC_BOOT fw) 0x11, x1 = MAKE_SCM_ARGS fw 6,
            x2 = addr, x3 = 0xFFFFFFFF, x4 = 0xFFFFFFFF,
            x5 = [0xFFFFFFFF, 0xFFFFFFFF, (if arm64 then 1 else 0) OR 2]\<rparr>,
         s\<lparr>trace := trace s @
            [ScmCall2
              \<lparr>x0 = MAKE_SIP_SCM_CMD fw (SCM_SVC_BOOT fw) 0x11, x1 = MAKE_SCM_ARGS fw 6,
               x2 = addr, x3 = 0xFFFFFFFF, x4 = 0xFFFFFFFF,
               x5 = [0xFFFFFFFF, 0xFFFFFFFF, (if arm64 then 1 else 0) OR 2]\<rparr>]\<rparr>))"
  by (simp add: cpu_boot_set_addr_def Let_def dprintf_def emit_def BIT_def
        QCOM_SCM_BOOT_SET_ADDR_def QCOM_SCM_BOOT_FLAG_COLD_ALL_def
        QCOM_SCM_BOOT_SET_ADDR_MC_def QCOM_SCM_BOOT_MC_FLAG_AARCH64_def
        QCOM_SCM_BOOT_MC_FLAG_COLDBOOT_def all_ones_32)

theorem cpu_boot_set_addr_paths_witness:
  "\<not> is_scm_armv8_support (example_scm False) \<and>
   cpu_boot_set_addr (example_scm False) 0x8f600000 False example_hw =
     (0, example_hw\<lparr>trace :=
        [Dprintf INFO ''Falling back to legacy QCOM_SCM_BOOT_SET_ADDR call\<newline>'' [],
         ScmCallAtomic2 0x1 0x1 0x29 0x8f600000]\<rparr>) \<and>
   is_scm_armv8_support (example_scm True) \<and>
   cpu_boot_set_addr (example_scm True) 0x8f600000 True example_hw =
     (0, example_hw\<lparr>trace :=
        [ScmCall2 \<lparr>x0 = 0x02000111, x1 = 6, x2 = 0x8f600000, x3 = 0xFFFFFFFF, x4 = 0xFFFFFFFF,
                   x5 = [0xFFFFFFFF, 0xFFFFFFFF, 3]\<rparr>]\<rparr>)"
  using cpu_boot_set_addr_paths [of "example_scm False" "0x8f600000" False example_hw]
    cpu_boot_set_addr_paths [of "example_scm True" "0x8f600000" True example_hw]
  by (simp add: example_scm_def example_hw_def)

section \<open>The boot dispatcher\<close>

text \<open>
  Claim C6. When the identifier read from the hardware equals the requested one,
  \<^verbatim>\<open>cpu_boot\<close> returns true at once: the only event is the informational log
  line, no register is written, and neither the tree, the node, the compiled-in
  method nor the sequencers have any influence on the outcome.
\<close>

theorem cpu_boot_skips_current_cpu:
  assumes "mpidr = read_mpidr s"
  shows "cpu_boot method seq dtb node mpidr s =
           (True, emit (Dprintf INFO ''Skipping boot of current CPU (%x)\<newline>''
                          [ArgHex mpidr]) s) \<and>
         cpu_boot method seq dtb node mpidr s = cpu_boot method' seq' dtb' node' mpidr s \<and>
         regs (snd (cpu_boot method seq dtb node mpidr s)) = regs s \<and>
         writes (new_events s (snd (cpu_boot method seq dtb node mpidr s))) = []"
  using assms by (simp add: cpu_boot_def dprintf_def new_events_def)

theorem cpu_boot_skips_current_cpu_witness:
  "0 = read_mpidr example_hw \<and>
   cpu_boot CPU_BOOT_CORTEX_A probe_sequencers example_dtb 100 0 example_hw =
     (True, example_hw\<lparr>trace :=
        [Dprintf INFO ''Skipping boot of current CPU (%x)\<newline>'' [ArgHex 0]]\<rparr>)"
proof -
  have h: "0 = read_mpidr example_hw"
    by (simp add: read_mpidr_def BITS_def example_hw_def)
  from cpu_boot_skips_current_cpu [OF h, of CPU_BOOT_CORTEX_A probe_sequencers example_dtb 100]
  show ?thesis using h by (simp add: emit_def example_hw_def)
qed

text \<open>
  Claim C5. \<^verbatim>\<open>cpu_boot\<close> resolves \<^verbatim>\<open>qcom,acc\<close> once the target is known not
  to be the running core. When that resolution yields 0, whatever the compiled-in
  method, it returns false in the state the resolver left: no sequencer has run, the
  registers are unchanged and the trace has no new register write.
\<close>

theorem cpu_boot_acc_unresolved:
  assumes "mpidr \<noteq> read_mpidr s"
    and "fst (read_phandle_reg dtb node ''qcom,acc'' s) = 0"
  shows "cpu_boot method seq dtb node mpidr s =
           (False, snd (read_phandle_reg dtb node ''qcom,acc'' s)) \<and>
         regs (snd (cpu_boot method seq dtb node mpidr s)) = regs s \<and>
         writes (trace (snd (cpu_boot method seq dtb node mpidr s))) = writes (trace s)"
  using assms read_phandle_reg_indexed_effect [of dtb node "''qcom,acc''" 0 s]
  by (cases "read_phandle_reg_indexed dtb node ''qcom,acc'' 0 s")
     (simp add: cpu_boot_def read_phandle_reg_def)

theorem cpu_boot_acc_unresolved_witness:
  "1 \<noteq> read_mpidr example_hw \<and>
   fst (read_phandle_reg example_dtb 16 ''qcom,acc'' example_hw) = 0 \<and>
   cpu_boot CPU_BOOT_CORTEX_A probe_sequencers example_dtb 16 1 example_hw =
     (False, example_hw\<lparr>trace :=
        [Dprintf CRITICAL ''Cannot find %s node in %s: %d\<newline>''
           [ArgStr ''qcom,acc'', ArgStr ''clock-controller@f900d000'', ArgInt (- 1)]]\<rparr>)"
proof -
  have h1: "1 \<noteq> read_mpidr example_hw"
    by (simp add: read_mpidr_def BITS_def example_hw_def)
  have h2: "fst (read_phandle_reg example_dtb 16 ''qcom,acc'' example_hw) = 0"
    by (simp add: read_phandle_reg_def read_phandle_reg_indexed_def example_dtb_def)
  from cpu_boot_acc_unresolved [OF h1 h2, of CPU_BOOT_CORTEX_A probe_sequencers]
  show ?thesis using h1 h2
    by (simp add: read_phandle_reg_def read_phandle_reg_indexed_def example_dtb_def
          example_hw_def dprintf_def emit_def)
qed

text \<open>
  Claim C8. With the Cortex-A method compiled in, a target that is not the running
  core and a control register that resolves to a non-zero address \<open>acc\<close>, a
  \<^verbatim>\<open>clocks\<close> reference that cannot be followed, or whose target has no
  \<^verbatim>\<open>reg\<close> word, does not fail the call: \<^verbatim>\<open>cpu_boot_cortex_a\<close> runs with
  \<open>acc\<close> and 0, then \<^verbatim>\<open>udelay(100)\<close>, and the result is true. The state \<open>s2\<close>
  the sequencer starts in differs from the initial one by log lines only.
\<close>

theorem cpu_boot_cortex_a_optional_clock:
  assumes "mpidr \<noteq> read_mpidr s"
    and "read_phandle_reg dtb node ''qcom,acc'' s = (acc, s1)" and "acc \<noteq> 0"
    and "lkfdt_lookup_phandle dtb node ''clocks'' < 0 \<or>
         snd (fdt_getprop dtb (lkfdt_lookup_phandle dtb node ''clocks'') ''reg'') < 4"
    and "s2 = snd (read_phandle_reg dtb node ''clocks''
                (dprintf INFO ''Booting CPU%x @ %#08x\<newline>'' [ArgHex mpidr, ArgHex acc] s1))"
  shows "cpu_boot CPU_BOOT_CORTEX_A seq dtb node mpidr s =
           (True, udelay 100 (cpu_boot_cortex_a seq acc 0 s2)) \<and>
         regs s2 = regs s \<and> writes (trace s2) = writes (trace s)"
proof -
  let ?s1' = "dprintf INFO ''Booting CPU%x @ %#08x\<newline>'' [ArgHex mpidr, ArgHex acc] s1"
  have clk: "fst (read_phandle_reg dtb node ''clocks'' ?s1') = 0"
    using assms(4)
    by (auto simp add: read_phandle_reg_def read_phandle_reg_indexed_def Let_def
          read_phandle_value_indexed_absent)
  have s1: "regs s1 = regs s \<and> writes (trace s1) = writes (trace s)"
    using read_phandle_reg_indexed_effect [of dtb node "''qcom,acc''" 0 s] assms(2)
    by (simp add: read_phandle_reg_def)
  have s2: "regs s2 = regs ?s1' \<and> writes (trace s2) = writes (trace ?s1')"
    using read_phandle_reg_indexed_effect [of dtb node "''clocks''" 0 ?s1'] assms(5)
    by (simp add: read_phandle_reg_def)
  have "cpu_boot CPU_BOOT_CORTEX_A seq dtb node mpidr s =
           (True, udelay 100 (cpu_boot_cortex_a seq acc 0 s2))"
    using assms(1,2,3,5) clk
    by (cases "read_phandle_reg dtb node ''clocks'' ?s1'")
       (simp add: cpu_boot_def cpu_boot_method_part_def)
  with s1 s2 show ?thesis by (simp add: dprintf_def)
qed

text \<open>
  The scenario of the specification: the control register resolves to
  \<^verbatim>\<open>0xF9000000\<close>, there is no clock reference; the probe sequencer is called with
  that address and 0, the delay follows, the result is true.
\<close>

theorem cpu_boot_cortex_a_optional_clock_witness:
  "1 \<noteq> read_mpidr example_hw \<and>
   read_phandle_reg example_dtb 100 ''qcom,acc'' example_hw = (0xF9000000, example_hw) \<and>
   lkfdt_lookup_phandle example_dtb 100 ''clocks'' < 0 \<and>
   cpu_boot CPU_BOOT_CORTEX_A probe_sequencers example_dtb 100 1 example_hw =
     (True, \<lparr>regs = (\<lambda>a. 0), cp15_mpidr = 0x80000000,
             trace = [Dprintf INFO ''Booting CPU%x @ %#08x\<newline>'' [ArgHex 1, ArgHex 0xF9000000],
                      Dprintf CRITICAL ''Cannot find %s node in %s: %d\<newline>''
                        [ArgStr ''clocks'', ArgStr ''cpu@1'', ArgInt (- 1)],
                      Writel 0 0xF9000000, Udelay 100]\<rparr>)"
proof -
  have h1: "1 \<noteq> read_mpidr example_hw"
    by (simp add: read_mpidr_def BITS_def example_hw_def)
  have h2: "read_phandle_reg example_dtb 100 ''qcom,acc'' example_hw = (0xF9000000, example_hw)"
    by (simp add: read_phandle_reg_def read_phandle_reg_indexed_def
          read_phandle_value_indexed_def example_defs)
  have h3: "(0xF9000000 :: 32 word) \<noteq> 0" by simp
  have h4: "lkfdt_lookup_phandle example_dtb 100 ''clocks'' < 0"
    by (simp add: example_dtb_def)
  from cpu_boot_cortex_a_optional_clock [OF h1 h2 h3 disjI1 [OF h4] refl, of probe_sequencers]
  show ?thesis using h1 h2 h4
    by (simp add: read_phandle_reg_def read_phandle_reg_indexed_def example_dtb_def
          example_hw_def probe_sequencers_def prim_defs emit_def fun_eq_iff)
qed

section \<open>The msm8994 power sequencer\<close>

lemmas seq_defs = cpu_boot_cortex_a_msm8994_def power_on_l2_cache_msm8994_def
  msm_spm_turn_on_cpu_rail_def prim_defs reg_defs emit_def

lemma status_bits: "L2_PWR_STATUS_L2_HS_STS_MSM8994 = 0x10000200"
  by (simp add: L2_PWR_STATUS_L2_HS_STS_MSM8994_def BIT_def)

lemma msm_spm_turn_on_cpu_rail_trace:
  "trace (msm_spm_turn_on_cpu_rail v0 v1 val s) = trace s @
     (if v1 \<noteq> 0 then [Writel 0x2 v1, Dsb] else []) @
     [Writel (val AND 0xFF) (v0 + L2_VREG_CTL), Dsb, Udelay 2000,
      Writel 0x30080 (v0 + L2_VREG_CTL), Dsb, Udelay 2000]"
  by (simp add: msm_spm_turn_on_cpu_rail_def prim_defs reg_defs Let_def)

lemma power_on_l2_cache_already_on:
  "l2_already_on s l2ccc \<Longrightarrow>
   power_on_l2_cache_msm8994 l2ccc v0 v1 val s = emit (Readl (l2ccc + L2_PWR_CTL)) s"
  by (simp add: power_on_l2_cache_msm8994_def readl_def l2_already_on_def)

lemma power_on_l2_cache_off_trace:
  "\<not> l2_already_on s l2ccc \<Longrightarrow>
   trace (power_on_l2_cache_msm8994 l2ccc v0 v1 val s) = trace s @
     [Readl (l2ccc + L2_PWR_CTL)] @
     (if v1 \<noteq> 0 then [Writel 0x2 v1, Dsb] else []) @
     [Writel (val AND 0xFF) (v0 + L2_VREG_CTL), Dsb, Udelay 2000,
      Writel 0x30080 (v0 + L2_VREG_CTL), Dsb, Udelay 2000,
      Dprintf INFO ''Powering on L2 cache @ %#08x\<newline>'' [ArgHex l2ccc],
      EnterCritical,
      Writel 0x00000000 (l2ccc + L1_RST_DIS), Dsb,
      Writel 0x00400000 (l2ccc + L2_PWR_CTL_OVERRIDE), Dsb,
      Writel 0x00029716 (l2ccc + L2_PWR_CTL), Dsb, Udelay 8,
      Writel 0x00023716 (l2ccc + L2_PWR_CTL), Dsb,
      Writel 0x0002371E (l2ccc + L2_PWR_CTL), Dsb, Udelay 8,
      Writel 0x0002371C (l2ccc + L2_PWR_CTL), Dsb, Udelay 4,
      Writel 0x0002361C (l2ccc + L2_PWR_CTL), Dsb, Udelay 2,
      Writel 0x00022218 (l2ccc + L2_PWR_CTL), Dsb, Udelay 4,
      Writel 0x10022218 (l2ccc + L2_PWR_CTL), Dsb,
      Writel 0x00000000 (l2ccc + L2_PWR_CTL_OVERRIDE), Dsb,
      ExitCritical]"
  by (simp add: power_on_l2_cache_msm8994_def prim_defs l2_already_on_def
        msm_spm_turn_on_cpu_rail_trace)

lemma core_phase_trace:
  "trace (cpu_boot_cortex_a_msm8994 base l2ccc v0 v1 val s) =
     trace (if l2ccc \<noteq> 0 then power_on_l2_cache_msm8994 l2ccc v0 v1 val s else s) @
     [EnterCritical,
      Writel 0x01 (base + APC_PWR_GATE_CTL), Dsb, Udelay 1,
      Writel 0x03 (base + APC_PWR_GATE_CTL), Dsb, Udelay 1,
      Writel 0x79 (base + CPU_PWR_CTL), Dsb, Udelay 2,
      Writel 0x7D (base + CPU_PWR_CTL), Dsb, Udelay 2,
      Writel 0x3D (base + CPU_PWR_CTL), Dsb,
      Writel 0x3C (base + CPU_PWR_CTL), Dsb, Udelay 1,
      Writel 0x0C (base + CPU_PWR_CTL), Dsb,
      Writel 0x8C (base + CPU_PWR_CTL), Dsb,
      ExitCritical]"
  by (simp add: cpu_boot_cortex_a_msm8994_def prim_defs Let_def)

lemma sequencer_new_events_skip:
  "l2ccc = 0 \<or> l2_already_on s l2ccc \<Longrightarrow>
   split_writes 0 (new_events s (cpu_boot_cortex_a_msm8994 base l2ccc v0 v1 val s)) =
     ([], core_enable_writes base, 0)"
  by (auto simp add: new_events_def core_phase_trace core_enable_writes_def
        power_on_l2_cache_already_on)

lemma sequencer_new_events_full:
  "l2ccc \<noteq> 0 \<Longrightarrow> \<not> l2_already_on s l2ccc \<Longrightarrow>
   split_writes 0 (new_events s (cpu_boot_cortex_a_msm8994 base l2ccc v0 v1 val s)) =
     (rail_writes v0 v1 val, l2_cache_writes l2ccc @ core_enable_writes base, 0)"
  by (simp add: new_events_def core_phase_trace core_enable_writes_def
        power_on_l2_cache_off_trace rail_writes_def l2_cache_writes_def)

lemma sequencer_writes:
  "writes (trace (cpu_boot_cortex_a_msm8994 base l2ccc v0 v1 val s)) =
     writes (trace s) @
     (if l2ccc \<noteq> 0 \<and> \<not> l2_already_on s l2ccc
      then rail_writes v0 v1 val @ l2_cache_writes l2ccc else []) @
     core_enable_writes base"
  by (simp add: core_phase_trace core_enable_writes_def power_on_l2_cache_off_trace
        power_on_l2_cache_already_on rail_writes_def l2_cache_writes_def writes_def)

text \<open>
  Claim C10. With \<^verbatim>\<open>l2ccc_base\<close> equal to zero the sequencer does the core-enable
  phase and nothing else: one critical section holding eight writes, two to
  \<^verbatim>\<open>base + APC_PWR_GATE_CTL\<close> and six to \<^verbatim>\<open>base + CPU_PWR_CTL\<close>, with their
  barriers and delays. No register is read, and the rail arguments are not used.
\<close>

theorem cpu_boot_cortex_a_msm8994_without_l2ccc:
  "new_events s (cpu_boot_cortex_a_msm8994 base 0 vctl_base_0 vctl_base_1 vctl_val s) =
     [EnterCritical,
      Writel 0x01 (base + APC_PWR_GATE_CTL), Dsb, Udelay 1,
      Writel 0x03 (base + APC_PWR_GATE_CTL), Dsb, Udelay 1,
      Writel 0x79 (base + CPU_PWR_CTL), Dsb, Udelay 2,
      Writel 0x7D (base + CPU_PWR_CTL), Dsb, Udelay 2,
      Writel 0x3D (base + CPU_PWR_CTL), Dsb,
      Writel 0x3C (base + CPU_PWR_CTL), Dsb, Udelay 1,
      Writel 0x0C (base + CPU_PWR_CTL), Dsb,
      Writel 0x8C (base + CPU_PWR_CTL), Dsb,
      ExitCritical] \<and>
   writes (new_events s (cpu_boot_cortex_a_msm8994 base 0 vctl_base_0 vctl_base_1 vctl_val s)) =
     core_enable_writes base \<and>
   length (core_enable_writes base) = 8"
  by (simp add: new_events_def core_phase_trace core_enable_writes_def writes_def)

text \<open>
  Claim C4, as the code has it. The theorem gives the complete sequence of events of
  one call of the sequencer, in program order. When the cache phase runs (a non-zero
  \<^verbatim>\<open>l2ccc_base\<close> whose status is off) it is: the status read, the two or three
  rail writes of \<^verbatim>\<open>msm_spm_turn_on_cpu_rail\<close> with their barriers and delays, the
  log line, and only then \<^verbatim>\<open>enter_critical_section\<close>, the ten writes of the L2
  power-up sequence proper, and \<^verbatim>\<open>exit_critical_section\<close> right after the last
  of them. The core-enable phase follows in every case: one critical section, entered
  right before the first of its eight writes and exited right after the last.
  Replayed from nesting depth 0, the rail writes are therefore the writes at depth 0
  and the cache and core-enable writes are the writes inside a critical section.
\<close>

theorem cpu_boot_cortex_a_msm8994_critical_sections:
  "new_events s (cpu_boot_cortex_a_msm8994 base l2ccc v0 v1 val s) =
     (if l2ccc \<noteq> 0 \<and> \<not> l2_already_on s l2ccc then
        [Readl (l2ccc + L2_PWR_CTL)] @
        (if v1 \<noteq> 0 then [Writel 0x2 v1, Dsb] else []) @
        [Writel (val AND 0xFF) (v0 + L2_VREG_CTL), Dsb, Udelay 2000,
         Writel 0x30080 (v0 + L2_VREG_CTL), Dsb, Udelay 2000,
         Dprintf INFO ''Powering on L2 cache @ %#08x\<newline>'' [ArgHex l2ccc],
         EnterCritical,
         Writel 0x00000000 (l2ccc + L1_RST_DIS), Dsb,
         Writel 0x00400000 (l2ccc + L2_PWR_CTL_OVERRIDE), Dsb,
         Writel 0x00029716 (l2ccc + L2_PWR_CTL), Dsb, Udelay 8,
         Writel 0x00023716 (l2ccc + L2_PWR_CTL), Dsb,
         Writel 0x0002371E (l2ccc + L2_PWR_CTL), Dsb, Udelay 8,
         Writel 0x0002371C (l2ccc + L2_PWR_CTL), Dsb, Udelay 4,
         Writel 0x0002361C (l2ccc + L2_PWR_CTL), Dsb, Udelay 2,
         Writel 0x00022218 (l2ccc + L2_PWR_CTL), Dsb, Udelay 4,
         Writel 0x10022218 (l2ccc + L2_PWR_CTL), Dsb,
         Writel 0x00000000 (l2ccc + L2_PWR_CTL_OVERRIDE), Dsb,
         ExitCritical]
      else if l2ccc \<noteq> 0 then [Readl (l2ccc + L2_PWR_CTL)]
      else []) @
     [EnterCritical,
      Writel 0x01 (base + APC_PWR_GATE_CTL), Dsb, Udelay 1,
      Writel 0x03 (base + APC_PWR_GATE_CTL), Dsb, Udelay 1,
      Writel 0x79 (base + CPU_PWR_CTL), Dsb, Udelay 2,
      Writel 0x7D (base + CPU_PWR_CTL), Dsb, Udelay 2,
      Writel 0x3D (base + CPU_PWR_CTL), Dsb,
      Writel 0x3C (base + CPU_PWR_CTL), Dsb, Udelay 1,
      Writel 0x0C (base + CPU_PWR_CTL), Dsb,
      Writel 0x8C (base + CPU_PWR_CTL), Dsb,
      ExitCritical] \<and>
   split_writes 0 (new_events s (cpu_boot_cortex_a_msm8994 base l2ccc v0 v1 val s)) =
     (if l2ccc \<noteq> 0 \<and> \<not> l2_already_on s l2ccc
      then (rail_writes v0 v1 val, l2_cache_writes l2ccc @ core_enable_writes base, 0)
      else ([], core_enable_writes base, 0))"
proof (intro conjI)
  show "split_writes 0 (new_events s (cpu_boot_cortex_a_msm8994 base l2ccc v0 v1 val s)) =
     (if l2ccc \<noteq> 0 \<and> \<not> l2_already_on s l2ccc
      then (rail_writes v0 v1 val, l2_cache_writes l2ccc @ core_enable_writes base, 0)
      else ([], core_enable_writes base, 0))"
    using sequencer_new_events_skip [of l2ccc s base v0 v1 val]
      sequencer_new_events_full [of l2ccc s base v0 v1 val]
    by auto
next
  consider (none) "l2ccc = 0" | (on) "l2ccc \<noteq> 0" "l2_already_on s l2ccc"
    | (off) "l2ccc \<noteq> 0" "\<not> l2_already_on s l2ccc"
    by blast
  then show "new_events s (cpu_boot_cortex_a_msm8994 base l2ccc v0 v1 val s) =
     (if l2ccc \<noteq> 0 \<and> \<not> l2_already_on s l2ccc then
        [Readl (l2ccc + L2_PWR_CTL)] @
        (if v1 \<noteq> 0 then [Writel 0x2 v1, Dsb] else []) @
        [Writel (val AND 0xFF) (v0 + L2_VREG_CTL), Dsb, Udelay 2000,
         Writel 0x30080 (v0 + L2_VREG_CTL), Dsb, Udelay 2000,
         Dprintf INFO ''Powering on L2 cache @ %#08x\<newline>'' [ArgHex l2ccc],
         EnterCritical,
         Writel 0x00000000 (l2ccc + L1_RST_DIS), Dsb,
         Writel 0x00400000 (l2ccc + L2_PWR_CTL_OVERRIDE), Dsb,
         Writel 0x00029716 (l2ccc + L2_PWR_CTL), Dsb, Udelay 8,
         Writel 0x00023716 (l2ccc + L2_PWR_CTL), Dsb,
         Writel 0x0002371E (l2ccc + L2_PWR_CTL), Dsb, Udelay 8,
         Writel 0x0002371C (l2ccc + L2_PWR_CTL), Dsb, Udelay 4,
         Writel 0x0002361C (l2ccc + L2_PWR_CTL), Dsb, Udelay 2,
         Writel 0x00022218 (l2ccc + L2_PWR_CTL), Dsb, Udelay 4,
         Writel 0x10022218 (l2ccc + L2_PWR_CTL), Dsb,
         Writel 0x00000000 (l2ccc + L2_PWR_CTL_OVERRIDE), Dsb,
         ExitCritical]
      else if l2ccc \<noteq> 0 then [Readl (l2ccc + L2_PWR_CTL)]
      else []) @
     [EnterCritical,
      Writel 0x01 (base + APC_PWR_GATE_CTL), Dsb, Udelay 1,
      Writel 0x03 (base + APC_PWR_GATE_CTL), Dsb, Udelay 1,
      Writel 0x79 (base + CPU_PWR_CTL), Dsb, Udelay 2,
      Writel 0x7D (base + CPU_PWR_CTL), Dsb, Udelay 2,
      Writel 0x3D (base + CPU_PWR_CTL), Dsb,
      Writel 0x3C (base + CPU_PWR_CTL), Dsb, Udelay 1,
      Writel 0x0C (base + CPU_PWR_CTL), Dsb,
      Writel 0x8C (base + CPU_PWR_CTL), Dsb,
      ExitCritical]"
  proof cases
    case none
    then show ?thesis by (simp add: new_events_def core_phase_trace)
  next
    case on
    then show ?thesis
      by (simp add: new_events_def core_phase_trace power_on_l2_cache_already_on)
  next
    case off
    then show ?thesis
      by (simp add: new_events_def core_phase_trace power_on_l2_cache_off_trace)
  qed
qed

text \<open>
  Claim C4 as stated fails: on the example machine, with the L2 cache off, the three
  rail writes are issued at depth 0.
\<close>

theorem rail_writes_outside_critical_section:
  "fst (split_writes 0 (new_events example_hw
     (cpu_boot_cortex_a_msm8994 0xf9088000 0xf900f000 0xf9012000 0xf900d210 0x45 example_hw))) =
   [Writel 0x2 0xf900d210, Writel 0x45 0xf901201c, Writel 0x30080 0xf901201c]"
  by (simp add: sequencer_new_events_full l2_already_on_def example_hw_def rail_writes_def
        reg_defs status_bits)

text \<open>
  Claim C3, as the code has it. When the status word at
  \<^verbatim>\<open>l2ccc_base + L2_PWR_CTL\<close> has bit 9 or bit 28 set,
  \<^verbatim>\<open>power_on_l2_cache_msm8994\<close> reads that word and does nothing else: no rail
  write, no cache write. Two calls of the sequencer in a row that both find the
  status on make the core-enable writes twice and no rail or cache write at all; the
  rail and cache writes are made exactly once overall when the first call finds the
  status off and the second finds it on.
\<close>

theorem cache_phase_idempotence_guard:
  "(l2_already_on s l2ccc \<longrightarrow>
      power_on_l2_cache_msm8994 l2ccc v0 v1 val s = emit (Readl (l2ccc + L2_PWR_CTL)) s) \<and>
   (l2_already_on s l2ccc \<and>
    l2_already_on (cpu_boot_cortex_a_msm8994 base l2ccc v0 v1 val s) l2ccc \<longrightarrow>
      writes (trace (cpu_boot_cortex_a_msm8994 base l2ccc v0 v1 val
                      (cpu_boot_cortex_a_msm8994 base l2ccc v0 v1 val s))) =
        writes (trace s) @ core_enable_writes base @ core_enable_writes base) \<and>
   (l2ccc \<noteq> 0 \<and> \<not> l2_already_on s l2ccc \<and>
    l2_already_on (cpu_boot_cortex_a_msm8994 base l2ccc v0 v1 val s) l2ccc \<longrightarrow>
      writes (trace (cpu_boot_cortex_a_msm8994 base l2ccc v0 v1 val
                      (cpu_boot_cortex_a_msm8994 base l2ccc v0 v1 val s))) =
        writes (trace s) @ rail_writes v0 v1 val @ l2_cache_writes l2ccc @
        core_enable_writes base @ core_enable_writes base)"
  by (simp add: power_on_l2_cache_already_on sequencer_writes)

text \<open>
  On the example machines: with bit 9 set the cache phase is the status read alone,
  and two calls make the sixteen core-enable writes only; from the machine with all
  registers zero the first call leaves \<^verbatim>\<open>0x10022218\<close> in the status word, so the
  second call finds the cache on and the rail and cache writes appear once.
\<close>

theorem cache_phase_idempotence_guard_witness:
  "l2_already_on example_hw_l2_on 0xf900f000 \<and>
   power_on_l2_cache_msm8994 0xf900f000 0xf9012000 0xf900d210 0x45 example_hw_l2_on =
     example_hw_l2_on\<lparr>trace := [Readl 0xf900f014]\<rparr> \<and>
   l2_already_on
     (cpu_boot_cortex_a_msm8994 0xf9088000 0xf900f000 0xf9012000 0xf900d210 0x45 example_hw_l2_on)
     0xf900f000 \<and>
   writes (trace (cpu_boot_cortex_a_msm8994 0xf9088000 0xf900f000 0xf9012000 0xf900d210 0x45
     (cpu_boot_cortex_a_msm8994 0xf9088000 0xf900f000 0xf9012000 0xf900d210 0x45
        example_hw_l2_on))) =
     core_enable_writes 0xf9088000 @ core_enable_writes 0xf9088000 \<and>
   (0xf900f000 :: 32 word) \<noteq> 0 \<and> \<not> l2_already_on example_hw 0xf900f000 \<and>
   l2_already_on
     (cpu_boot_cortex_a_msm8994 0xf9088000 0xf900f000 0xf9012000 0xf900d210 0x45 example_hw)
     0xf900f000 \<and>
   writes (trace (cpu_boot_cortex_a_msm8994 0xf9088000 0xf900f000 0xf9012000 0xf900d210 0x45
     (cpu_boot_cortex_a_msm8994 0xf9088000 0xf900f000 0xf9012000 0xf900d210 0x45 example_hw))) =
     rail_writes 0xf9012000 0xf900d210 0x45 @ l2_cache_writes 0xf900f000 @
     core_enable_writes 0xf9088000 @ core_enable_writes 0xf9088000"
proof -
  have on1: "l2_already_on example_hw_l2_on 0xf900f000"
    by (simp add: l2_already_on_def example_hw_l2_on_def reg_defs status_bits)
  have on2: "l2_already_on
     (cpu_boot_cortex_a_msm8994 0xf9088000 0xf900f000 0xf9012000 0xf900d210 0x45 example_hw_l2_on)
     0xf900f000"
    by (simp add: l2_already_on_def example_hw_l2_on_def seq_defs status_bits)
  have off1: "\<not> l2_already_on example_hw 0xf900f000"
    by (simp add: l2_already_on_def example_hw_def reg_defs status_bits)
  have on3: "l2_already_on
     (cpu_boot_cortex_a_msm8994 0xf9088000 0xf900f000 0xf9012000 0xf900d210 0x45 example_hw)
     0xf900f000"
    by (simp add: l2_already_on_def example_hw_def seq_defs status_bits)
  have t1: "trace example_hw_l2_on = []" and t2: "trace example_hw = []"
    by (simp_all add: example_hw_l2_on_def example_hw_def)
  from cache_phase_idempotence_guard
         [of example_hw_l2_on "0xf900f000" "0xf9012000" "0xf900d210" "0x45" "0xf9088000"]
       cache_phase_idempotence_guard
         [of example_hw "0xf900f000" "0xf9012000" "0xf900d210" "0x45" "0xf9088000"]
       on1 on2 off1 on3 t1 t2
  show ?thesis
    by (simp add: emit_def example_hw_l2_on_def reg_defs)
qed

text \<open>
  Claim C3 as stated fails: with the status on before the first call, and still on
  before the second, the two calls make no rail or cache write, not one round of them.
\<close>

theorem cache_phase_twice_already_on_no_rail_write:
  "l2_already_on example_hw_l2_on 0xf900f000 \<and>
   l2_already_on
     (cpu_boot_cortex_a_msm8994 0xf9088000 0xf900f000 0xf9012000 0xf900d210 0x45 example_hw_l2_on)
     0xf900f000 \<and>
   writes (new_events example_hw_l2_on
     (cpu_boot_cortex_a_msm8994 0xf9088000 0xf900f000 0xf9012000 0xf900d210 0x45
       (cpu_boot_cortex_a_msm8994 0xf9088000 0xf900f000 0xf9012000 0xf900d210 0x45
          example_hw_l2_on))) =
     core_enable_writes 0xf9088000 @ core_enable_writes 0xf9088000 \<and>
   writes (new_events example_hw_l2_on
     (cpu_boot_cortex_a_msm8994 0xf9088000 0xf900f000 0xf9012000 0xf900d210 0x45
       (cpu_boot_cortex_a_msm8994 0xf9088000 0xf900f000 0xf9012000 0xf900d210 0x45
          example_hw_l2_on))) \<noteq>
     rail_writes 0xf9012000 0xf900d210 0x45 @ l2_cache_writes 0xf900f000 @
     core_enable_writes 0xf9088000 @ core_enable_writes 0xf9088000"
proof -
  have on1: "l2_already_on example_hw_l2_on 0xf900f000"
    by (simp add: l2_already_on_def example_hw_l2_on_def reg_defs status_bits)
  have on2: "l2_already_on
     (cpu_boot_cortex_a_msm8994 0xf9088000 0xf900f000 0xf9012000 0xf900d210 0x45 example_hw_l2_on)
     0xf900f000"
    by (simp add: l2_already_on_def example_hw_l2_on_def seq_defs status_bits)
  have t1: "trace example_hw_l2_on = []"
    by (simp add: example_hw_l2_on_def)
  show ?thesis
    using on1 on2 t1
    by (simp add: new_events_def sequencer_writes rail_writes_def l2_cache_writes_def
          core_enable_writes_def)
qed

end
